theory Spec2Isabelle
  imports Complex_Main "HOL-Library.Word" "HOL-Library.Signed_Division" "HOL-Library.Log_Nat"
begin

section \<open>Go's numeric types\<close>

subsection \<open>int64\<close>

text \<open>
  Go's \<^verbatim>\<open>int64\<close> is a 64-bit word read as two's complement: \<open>+\<close> wraps around,
  comparisons are the signed ones (\<open><s\<close>), and \<^verbatim>\<open>/\<close> and \<^verbatim>\<open>%\<close> truncate towards
  zero. Go panics on a zero divisor; the two divisions of the store are by the constant
  \<^verbatim>\<open>Minute\<close> and by a count that was tested to be positive, so the panic is not a
  branch of the model.
\<close>

type_synonym int64 = "64 word"

definition int64_quo :: "int64 \<Rightarrow> int64 \<Rightarrow> int64" where
  "int64_quo a b = word_of_int (sint a sdiv sint b)"

definition int64_rem :: "int64 \<Rightarrow> int64 \<Rightarrow> int64" where
  "int64_rem a b = word_of_int (sint a smod sint b)"

subsection \<open>float64\<close>

text \<open>
  A \<^verbatim>\<open>float64\<close> is an IEEE 754 binary64 value: a rational with a 53-bit significand,
  an infinity or a NaN. Every operation computes the exact result and rounds it to the
  nearest representable value, ties to the even significand. The two zeros are
  identified (as \<open>+0\<close>): in \<^verbatim>\<open>GetStats\<close> no operand is ever \<open>-0\<close>, since an int64
  converts to \<open>+0\<close> and a sum of a zero and a non-zero value is not a zero.
\<close>

datatype float64 = Finite rat | PosInf | NegInf | NaN

definition pow2 :: "int \<Rightarrow> rat" where
  "pow2 e = (if 0 \<le> e then 2 ^ nat e else 1 / 2 ^ nat (- e))"

text \<open>The binary exponent \<open>\<lfloor>log\<^sub>2 \<bar>x\<bar>\<rfloor>\<close> of a non-zero rational.\<close>

definition ilog2 :: "rat \<Rightarrow> int" where
  "ilog2 x =
     (let e = bitlen (fst (quotient_of \<bar>x\<bar>)) - bitlen (snd (quotient_of \<bar>x\<bar>))
      in if pow2 e \<le> \<bar>x\<bar> then e else e - 1)"

definition round_half_even :: "rat \<Rightarrow> int" where
  "round_half_even x =
     (let f = \<lfloor>x\<rfloor>; d = x - of_int f
      in if d < 1 / 2 then f
         else if 1 / 2 < d then f + 1
         else if even f then f else f + 1)"

text \<open>
  Rounding to binary64: the quantum is \<open>2\<^sup>e\<^sup>-\<^sup>5\<^sup>2\<close> for a value of binary exponent \<open>e\<close>,
  and \<open>2\<^sup>-\<^sup>1\<^sup>0\<^sup>7\<^sup>4\<close> in the subnormal range; a rounded value of binary exponent 1024
  or more, that is of magnitude \<open>2\<^sup>1\<^sup>0\<^sup>2\<^sup>4\<close> or more, overflows.
\<close>

definition round64 :: "rat \<Rightarrow> float64" where
  "round64 x =
     (if x = 0 then Finite 0
      else
        (let q = max (ilog2 x) (- 1022) - 52;
             v = of_int (round_half_even (x / pow2 q)) * pow2 q
         in if v \<noteq> 0 \<and> 1024 \<le> ilog2 v then (if 0 < x then PosInf else NegInf)
            else Finite v))"

text \<open>The conversion \<^verbatim>\<open>float64(n)\<close> of an int64.\<close>

definition float64_of_int64 :: "int64 \<Rightarrow> float64" where
  "float64_of_int64 n = round64 (of_int (sint n))"

fun f64_add :: "float64 \<Rightarrow> float64 \<Rightarrow> float64" where
  "f64_add NaN _ = NaN"
| "f64_add _ NaN = NaN"
| "f64_add PosInf NegInf = NaN"
| "f64_add NegInf PosInf = NaN"
| "f64_add PosInf _ = PosInf"
| "f64_add _ PosInf = PosInf"
| "f64_add NegInf _ = NegInf"
| "f64_add _ NegInf = NegInf"
| "f64_add (Finite a) (Finite b) = round64 (a + b)"

fun f64_mul :: "float64 \<Rightarrow> float64 \<Rightarrow> float64" where
  "f64_mul NaN _ = NaN"
| "f64_mul _ NaN = NaN"
| "f64_mul PosInf PosInf = PosInf"
| "f64_mul PosInf NegInf = NegInf"
| "f64_mul NegInf PosInf = NegInf"
| "f64_mul NegInf NegInf = PosInf"
| "f64_mul PosInf (Finite b) = (if b = 0 then NaN else if 0 < b then PosInf else NegInf)"
| "f64_mul NegInf (Finite b) = (if b = 0 then NaN else if 0 < b then NegInf else PosInf)"
| "f64_mul (Finite a) PosInf = (if a = 0 then NaN else if 0 < a then PosInf else NegInf)"
| "f64_mul (Finite a) NegInf = (if a = 0 then NaN else if 0 < a then NegInf else PosInf)"
| "f64_mul (Finite a) (Finite b) = round64 (a * b)"

text \<open>
  Division of floats does not panic in Go: a non-zero value divided by zero is an
  infinity, and \<open>0 / 0\<close> is NaN.
\<close>

fun f64_div :: "float64 \<Rightarrow> float64 \<Rightarrow> float64" where
  "f64_div NaN _ = NaN"
| "f64_div _ NaN = NaN"
| "f64_div PosInf (Finite b) = (if 0 \<le> b then PosInf else NegInf)"
| "f64_div NegInf (Finite b) = (if 0 \<le> b then NegInf else PosInf)"
| "f64_div PosInf _ = NaN"
| "f64_div NegInf _ = NaN"
| "f64_div (Finite a) PosInf = Finite 0"
| "f64_div (Finite a) NegInf = Finite 0"
| "f64_div (Finite a) (Finite b) =
     (if b = 0 then (if a = 0 then NaN else if 0 < a then PosInf else NegInf)
      else round64 (a / b))"

text \<open>The comparison \<^verbatim>\<open>x > y\<close>: false as soon as one side is NaN.\<close>

fun f64_gt :: "float64 \<Rightarrow> float64 \<Rightarrow> bool" where
  "f64_gt NaN _ = False"
| "f64_gt _ NaN = False"
| "f64_gt _ PosInf = False"
| "f64_gt PosInf _ = True"
| "f64_gt NegInf _ = False"
| "f64_gt _ NegInf = True"
| "f64_gt (Finite a) (Finite b) = (b < a)"

section \<open>Package time\<close>

text \<open>
  A \<^verbatim>\<open>time.Duration\<close> is an int64 count of nanoseconds. A \<^verbatim>\<open>time.Time\<close> is modelled
  by its instant: the number of nanoseconds since the zero Time, January 1 of year 1,
  00:00:00 UTC. Timestamps decoded from a request carry no monotonic clock reading, and
  the store never looks at a location. \<^verbatim>\<open>IsZero\<close> tests for the zero instant,
  \<^verbatim>\<open>t.Sub(u)\<close> is the duration \<open>t - u\<close>, saturated at the least and greatest Duration
  (about 292 years), and \<^verbatim>\<open>d.Minutes()\<close> is
  \<^verbatim>\<open>float64(d / Minute) + float64(d % Minute) / (60 * 1e9)\<close>.
\<close>

type_synonym Duration = int64

type_synonym Time = int

definition Second :: Duration where
  "Second = 1000000000"

definition Minute :: Duration where
  "Minute = 60000000000"

definition minDuration :: Duration where
  "minDuration = word_of_int (- (2 ^ 63))"

definition maxDuration :: Duration where
  "maxDuration = word_of_int (2 ^ 63 - 1)"

definition IsZero :: "Time \<Rightarrow> bool" where
  "IsZero t \<longleftrightarrow> t = 0"

definition Sub :: "Time \<Rightarrow> Time \<Rightarrow> Duration" where
  "Sub t u =
     (if t - u < - (2 ^ 63) then minDuration
      else if 2 ^ 63 - 1 < t - u then maxDuration
      else word_of_int (t - u))"

definition Minutes :: "Duration \<Rightarrow> float64" where
  "Minutes d =
     (let min = int64_quo d Minute;
          nsec = int64_rem d Minute
      in f64_add (float64_of_int64 min)
           (f64_div (float64_of_int64 nsec) (Finite 60000000000)))"

section \<open>The store\<close>

record DeviceStats =
  ID :: string
  HeartbeatCount :: int64
  FirstHeartbeat :: Time
  LastHeartbeat :: Time
  UploadCount :: int64
  UploadTimeSum :: Duration

text \<open>
  The store maps device identifiers to their records. Every method holds the lock of the
  store from its first statement to its return, so a method is one atomic step from a
  store to a store; the lock itself is not part of the state.
\<close>

record Store =
  devices :: "string \<rightharpoonup> DeviceStats"

definition NewStore :: Store where
  "NewStore = \<lparr>devices = Map.empty\<rparr>"

text \<open>The composite literal \<^verbatim>\<open>&DeviceStats{ID: deviceID}\<close>: every other field is zero.\<close>

definition newDeviceStats :: "string \<Rightarrow> DeviceStats" where
  "newDeviceStats deviceID =
     \<lparr>ID = deviceID, HeartbeatCount = 0, FirstHeartbeat = 0, LastHeartbeat = 0,
      UploadCount = 0, UploadTimeSum = 0\<rparr>"

text \<open>
  \<^verbatim>\<open>LoadDevicesFromCSV\<close>: the outcome of opening and parsing the file is the argument,
  an error or the rows of the file. The loop skips the header row and registers the
  first column of every row that has one.
\<close>

datatype error = OpenError | ReadError

fun load_rows :: "string list list \<Rightarrow> (string \<rightharpoonup> DeviceStats) \<Rightarrow> (string \<rightharpoonup> DeviceStats)" where
  "load_rows [] m = m"
| "load_rows (r # rs) m =
     (if 0 < length r \<and> r ! 0 \<noteq> ''''
      then load_rows rs (m(r ! 0 \<mapsto> newDeviceStats (r ! 0)))
      else load_rows rs m)"

definition LoadDevicesFromCSV :: "Store \<Rightarrow> error + string list list \<Rightarrow> Store \<times> error option" where
  "LoadDevicesFromCSV s file =
     (case file of
        Inl err \<Rightarrow> (s, Some err)
      | Inr records \<Rightarrow> (s\<lparr>devices := load_rows (drop 1 records) (devices s)\<rparr>, None))"

definition DeviceExists :: "Store \<Rightarrow> string \<Rightarrow> bool" where
  "DeviceExists s deviceID = (case devices s deviceID of None \<Rightarrow> False | Some _ \<Rightarrow> True)"

definition RecordHeartbeat :: "Store \<Rightarrow> string \<Rightarrow> Time \<Rightarrow> Store \<times> bool" where
  "RecordHeartbeat s deviceID sentAt =
     (case devices s deviceID of
        None \<Rightarrow> (s, False)
      | Some device \<Rightarrow>
          (let device = device\<lparr>HeartbeatCount := HeartbeatCount device + 1\<rparr>;
               device = (if IsZero (FirstHeartbeat device)
                         then device\<lparr>FirstHeartbeat := sentAt\<rparr> else device);
               device = device\<lparr>LastHeartbeat := sentAt\<rparr>
           in (s\<lparr>devices := (devices s)(deviceID \<mapsto> device)\<rparr>, True)))"

definition RecordUploadStat :: "Store \<Rightarrow> string \<Rightarrow> Duration \<Rightarrow> Store \<times> bool" where
  "RecordUploadStat s deviceID uploadTime =
     (case devices s deviceID of
        None \<Rightarrow> (s, False)
      | Some device \<Rightarrow>
          (let device = device\<lparr>UploadCount := UploadCount device + 1\<rparr>;
               device = device\<lparr>UploadTimeSum := UploadTimeSum device + uploadTime\<rparr>
           in (s\<lparr>devices := (devices s)(deviceID \<mapsto> device)\<rparr>, True)))"

record StatsResult =
  HasHeartbeats :: bool
  HasUploads :: bool
  Uptime :: float64
  AvgUploadTime :: Duration

text \<open>The zero value \<^verbatim>\<open>StatsResult{}\<close>.\<close>

definition zeroStatsResult :: StatsResult where
  "zeroStatsResult =
     \<lparr>HasHeartbeats = False, HasUploads = False, Uptime = Finite 0, AvgUploadTime = 0\<rparr>"

definition GetStats :: "Store \<Rightarrow> string \<Rightarrow> StatsResult \<times> bool" where
  "GetStats s deviceID =
     (case devices s deviceID of
        None \<Rightarrow> (zeroStatsResult, False)
      | Some device \<Rightarrow>
          (let result = zeroStatsResult;
               result =
                 (if 0 <s HeartbeatCount device then
                    (let result = result\<lparr>HasHeartbeats := True\<rparr>
                     in if HeartbeatCount device = 1 then result\<lparr>Uptime := Finite 100\<rparr>
                        else
                          (let minutesBetween =
                                 f64_add (Minutes (Sub (LastHeartbeat device) (FirstHeartbeat device)))
                                   (Finite 1);
                               result = result\<lparr>Uptime :=
                                 f64_mul (f64_div (float64_of_int64 (HeartbeatCount device)) minutesBetween)
                                   (Finite 100)\<rparr>
                           in if f64_gt (Uptime result) (Finite 100)
                              then result\<lparr>Uptime := Finite 100\<rparr> else result))
                  else result);
               result =
                 (if 0 <s UploadCount device then
                    result\<lparr>HasUploads := True,
                      AvgUploadTime := int64_quo (UploadTimeSum device) (UploadCount device)\<rparr>
                  else result)
           in (result, True)))"

definition DeviceCount :: "Store \<Rightarrow> nat" where
  "DeviceCount s = card (dom (devices s))"

section \<open>Histories of calls\<close>

text \<open>
  The two mutating methods as a datatype of calls, and the store reached from a store
  by a list of calls made one after the other. The boolean results are dropped.
\<close>

datatype call = Heartbeat string Time | Upload string Duration

fun apply_call :: "Store \<Rightarrow> call \<Rightarrow> Store" where
  "apply_call s (Heartbeat deviceID sentAt) = fst (RecordHeartbeat s deviceID sentAt)"
| "apply_call s (Upload deviceID uploadTime) = fst (RecordUploadStat s deviceID uploadTime)"

fun run :: "Store \<Rightarrow> call list \<Rightarrow> Store" where
  "run s [] = s"
| "run s (c # cs) = run (apply_call s c) cs"

text \<open>The timestamps of the heartbeats and the durations of the uploads of one device.\<close>

fun heartbeats_of :: "string \<Rightarrow> call list \<Rightarrow> Time list" where
  "heartbeats_of deviceID [] = []"
| "heartbeats_of deviceID (Heartbeat i t # cs) =
     (if i = deviceID then t # heartbeats_of deviceID cs else heartbeats_of deviceID cs)"
| "heartbeats_of deviceID (Upload i u # cs) = heartbeats_of deviceID cs"

fun uploads_of :: "string \<Rightarrow> call list \<Rightarrow> Duration list" where
  "uploads_of deviceID [] = []"
| "uploads_of deviceID (Upload i u # cs) =
     (if i = deviceID then u # uploads_of deviceID cs else uploads_of deviceID cs)"
| "uploads_of deviceID (Heartbeat i t # cs) = uploads_of deviceID cs"

text \<open>
  The store of the tests: \<^verbatim>\<open>device-1\<close> and \<^verbatim>\<open>device-2\<close> registered, no telemetry yet.
  The base time of the tests, 2024-01-15T10:00:00Z, is 63840909600 seconds after the zero
  Time.
\<close>

definition test_store :: Store where
  "test_store =
     fst (LoadDevicesFromCSV NewStore (Inr [[''device_id''], [''device-1''], [''device-2'']]))"

definition baseTime :: Time where
  "baseTime = 63840909600 * 1000000000"

text \<open>
  What \<^verbatim>\<open>RecordHeartbeat\<close> leaves in \<^verbatim>\<open>FirstHeartbeat\<close> after heartbeats with the
  timestamps \<open>ts\<close>, starting from the value \<open>f\<close>: the field is overwritten as long as it
  holds the zero Time.
\<close>

fun first_after :: "Time \<Rightarrow> Time list \<Rightarrow> Time" where
  "first_after f [] = f"
| "first_after f (t # ts) = first_after (if IsZero f then t else f) ts"

section \<open>The uptime of the specification\<close>





section \<open>Facts about the store\<close>

lemma test_store_devices:
  "devices test_store =
     [''device-1'' \<mapsto> newDeviceStats ''device-1'', ''device-2'' \<mapsto> newDeviceStats ''device-2'']"
  by (simp add: test_store_def LoadDevicesFromCSV_def NewStore_def)

lemma load_rows_fresh:
  "(\<And>i d. m i = Some d \<Longrightarrow> d = newDeviceStats i) \<Longrightarrow>
   load_rows rs m deviceID = Some device \<Longrightarrow> device = newDeviceStats deviceID"
proof (induction rs m rule: load_rows.induct)
  case (1 m)
  then show ?case by simp
next
  case (2 r rs m)
  show ?case
  proof (cases "0 < length r \<and> r ! 0 \<noteq> ''''")
    case True
    have "\<And>i d. (m(r ! 0 \<mapsto> newDeviceStats (r ! 0))) i = Some d \<Longrightarrow> d = newDeviceStats i"
      using "2.prems"(1) by (simp split: if_splits)
    moreover have "load_rows rs (m(r ! 0 \<mapsto> newDeviceStats (r ! 0))) deviceID = Some device"
      using "2.prems"(2) True by simp
    ultimately show ?thesis
      using "2.IH"(1) True by blast
  next
    case False
    then have "load_rows rs m deviceID = Some device"
      using "2.prems"(2) by auto
    then show ?thesis
      using "2.IH"(2) False "2.prems"(1) by blast
  qed
qed

text \<open>Every record of a store loaded from a roster is the zero record of its key.\<close>

lemma LoadDevicesFromCSV_fresh:
  "device = newDeviceStats deviceID"
  if "devices (fst (LoadDevicesFromCSV NewStore file)) deviceID = Some device"
proof (cases "file")
  case (Inl err)
  then show ?thesis
    using that by (simp add: LoadDevicesFromCSV_def NewStore_def)
next
  case (Inr records)
  then have "load_rows (drop 1 records) Map.empty deviceID = Some device"
    using that by (simp add: LoadDevicesFromCSV_def NewStore_def)
  then show ?thesis
    by (rule load_rows_fresh [rotated]) simp
qed

lemma RecordHeartbeat_Some:
  assumes "devices s deviceID = Some device"
  shows "RecordHeartbeat s deviceID sentAt =
           (s\<lparr>devices := (devices s)(deviceID \<mapsto> device
              \<lparr>HeartbeatCount := HeartbeatCount device + 1,
               FirstHeartbeat :=
                 (if IsZero (FirstHeartbeat device) then sentAt else FirstHeartbeat device),
               LastHeartbeat := sentAt\<rparr>)\<rparr>, True)"
  using assms by (simp add: RecordHeartbeat_def Let_def)

lemma RecordUploadStat_Some:
  assumes "devices s deviceID = Some device"
  shows "RecordUploadStat s deviceID uploadTime =
           (s\<lparr>devices := (devices s)(deviceID \<mapsto> device
              \<lparr>UploadCount := UploadCount device + 1,
               UploadTimeSum := UploadTimeSum device + uploadTime\<rparr>)\<rparr>, True)"
  using assms by (simp add: RecordUploadStat_def Let_def)

subsection \<open>The record of a device after a history of calls\<close>

lemma apply_call_device:
  assumes "devices s deviceID = Some device"
  shows "\<exists>device'. devices (apply_call s c) deviceID = Some device'
          \<and> ID device' = ID device
          \<and> HeartbeatCount device' =
              HeartbeatCount device + of_nat (length (heartbeats_of deviceID [c]))
          \<and> FirstHeartbeat device' =
              first_after (FirstHeartbeat device) (heartbeats_of deviceID [c])
          \<and> LastHeartbeat device' = last (LastHeartbeat device # heartbeats_of deviceID [c])
          \<and> UploadCount device' = UploadCount device + of_nat (length (uploads_of deviceID [c]))
          \<and> UploadTimeSum device' = UploadTimeSum device + sum_list (uploads_of deviceID [c])"
proof (cases c)
  case (Heartbeat i t)
  then show ?thesis
    using assms by (cases "devices s i") (auto simp: RecordHeartbeat_def Let_def)
next
  case (Upload i u)
  then show ?thesis
    using assms by (cases "devices s i") (auto simp: RecordUploadStat_def Let_def)
qed

lemma heartbeats_of_Cons:
  "heartbeats_of i (c # cs) = heartbeats_of i [c] @ heartbeats_of i cs"
  by (cases c) auto

lemma uploads_of_Cons:
  "uploads_of i (c # cs) = uploads_of i [c] @ uploads_of i cs"
  by (cases c) auto

lemma first_after_append:
  "first_after f (ts @ us) = first_after (first_after f ts) us"
  by (induction ts arbitrary: f) auto

lemma first_after_nonzero: "\<not> IsZero f \<Longrightarrow> first_after f ts = f"
  by (induction ts) auto

lemma last_Cons_append: "last (l # ts @ us) = last (last (l # ts) # us)"
  by (cases us) auto

lemma run_device:
  assumes "devices s deviceID = Some device"
  shows "\<exists>device'. devices (run s cs) deviceID = Some device'
          \<and> ID device' = ID device
          \<and> HeartbeatCount device' =
              HeartbeatCount device + of_nat (length (heartbeats_of deviceID cs))
          \<and> FirstHeartbeat device' =
              first_after (FirstHeartbeat device) (heartbeats_of deviceID cs)
          \<and> LastHeartbeat device' = last (LastHeartbeat device # heartbeats_of deviceID cs)
          \<and> UploadCount device' = UploadCount device + of_nat (length (uploads_of deviceID cs))
          \<and> UploadTimeSum device' = UploadTimeSum device + sum_list (uploads_of deviceID cs)"
  using assms
proof (induction cs arbitrary: s device)
  case Nil
  then show ?case by simp
next
  case (Cons c cs)
  obtain d1 where d1: "devices (apply_call s c) deviceID = Some d1"
    "ID d1 = ID device"
    "HeartbeatCount d1 = HeartbeatCount device + of_nat (length (heartbeats_of deviceID [c]))"
    "FirstHeartbeat d1 = first_after (FirstHeartbeat device) (heartbeats_of deviceID [c])"
    "LastHeartbeat d1 = last (LastHeartbeat device # heartbeats_of deviceID [c])"
    "UploadCount d1 = UploadCount device + of_nat (length (uploads_of deviceID [c]))"
    "UploadTimeSum d1 = UploadTimeSum device + sum_list (uploads_of deviceID [c])"
    using apply_call_device [OF Cons.prems, of c] by blast
  obtain d2 where d2: "devices (run (apply_call s c) cs) deviceID = Some d2"
    "ID d2 = ID d1"
    "HeartbeatCount d2 = HeartbeatCount d1 + of_nat (length (heartbeats_of deviceID cs))"
    "FirstHeartbeat d2 = first_after (FirstHeartbeat d1) (heartbeats_of deviceID cs)"
    "LastHeartbeat d2 = last (LastHeartbeat d1 # heartbeats_of deviceID cs)"
    "UploadCount d2 = UploadCount d1 + of_nat (length (uploads_of deviceID cs))"
    "UploadTimeSum d2 = UploadTimeSum d1 + sum_list (uploads_of deviceID cs)"
    using Cons.IH [OF d1(1)] by blast
  have hb: "heartbeats_of deviceID (c # cs) = heartbeats_of deviceID [c] @ heartbeats_of deviceID cs"
    by (rule heartbeats_of_Cons)
  have up: "uploads_of deviceID (c # cs) = uploads_of deviceID [c] @ uploads_of deviceID cs"
    by (rule uploads_of_Cons)
  have "devices (run s (c # cs)) deviceID = Some d2"
    using d2(1) by simp
  moreover have "ID d2 = ID device"
    using d1(2) d2(2) by simp
  moreover have "HeartbeatCount d2 =
      HeartbeatCount device + of_nat (length (heartbeats_of deviceID (c # cs)))"
    unfolding hb using d1(3) d2(3) by simp
  moreover have "FirstHeartbeat d2 =
      first_after (FirstHeartbeat device) (heartbeats_of deviceID (c # cs))"
    unfolding hb first_after_append using d1(4) d2(4) by simp
  moreover have "LastHeartbeat d2 = last (LastHeartbeat device # heartbeats_of deviceID (c # cs))"
    unfolding hb last_Cons_append using d1(5) d2(5) by simp
  moreover have "UploadCount d2 =
      UploadCount device + of_nat (length (uploads_of deviceID (c # cs)))"
    unfolding up using d1(6) d2(6) by simp
  moreover have "UploadTimeSum d2 =
      UploadTimeSum device + sum_list (uploads_of deviceID (c # cs))"
    unfolding up using d1(7) d2(7) by simp
  ultimately show ?case by blast
qed

lemma fresh_run:
  assumes "devices s0 deviceID = Some (newDeviceStats deviceID)"
  shows "\<exists>device. devices (run s0 calls) deviceID = Some device
          \<and> ID device = deviceID
          \<and> HeartbeatCount device = of_nat (length (heartbeats_of deviceID calls))
          \<and> FirstHeartbeat device = first_after 0 (heartbeats_of deviceID calls)
          \<and> LastHeartbeat device = last (0 # heartbeats_of deviceID calls)
          \<and> UploadCount device = of_nat (length (uploads_of deviceID calls))
          \<and> UploadTimeSum device = sum_list (uploads_of deviceID calls)"
  using run_device [OF assms, of calls] by (simp add: newDeviceStats_def)

section \<open>Recording heartbeats\<close>

text \<open>
  Claim C1, as the code has it. For every store and every known device, each call
  \<^verbatim>\<open>RecordHeartbeat(deviceID, sentAt)\<close> returns true, adds 1 to \<^verbatim>\<open>HeartbeatCount\<close>
  (in int64), sets \<^verbatim>\<open>LastHeartbeat\<close> to \<open>sentAt\<close>, and sets \<^verbatim>\<open>FirstHeartbeat\<close> to
  \<open>sentAt\<close> exactly when the field holds the zero Time. For a device whose record was
  created by the roster loader and any history of calls, provided the first heartbeat
  ever recorded for the device carries a timestamp other than the zero Time, the call
  sets \<^verbatim>\<open>FirstHeartbeat\<close> to \<open>sentAt\<close> if no heartbeat of the device was recorded
  before and leaves it unchanged otherwise, so that the field always holds the timestamp
  of the first heartbeat. In particular, for such a device, heartbeat \<open>T1\<close> (not the
  zero Time) then heartbeat \<open>T2\<close> with \<open>T2 < T1\<close> leaves \<^verbatim>\<open>FirstHeartbeat\<close> at \<open>T1\<close>
  and \<^verbatim>\<open>LastHeartbeat\<close> at \<open>T2\<close>.
\<close>

theorem RecordHeartbeat_known:
  "(devices s deviceID = Some device \<longrightarrow>
      (\<exists>device'.
          RecordHeartbeat s deviceID sentAt =
            (s\<lparr>devices := (devices s)(deviceID \<mapsto> device')\<rparr>, True)
        \<and> HeartbeatCount device' = HeartbeatCount device + 1
        \<and> LastHeartbeat device' = sentAt
        \<and> FirstHeartbeat device' =
            (if IsZero (FirstHeartbeat device) then sentAt else FirstHeartbeat device)))
 \<and> (devices s0 deviceID = Some (newDeviceStats deviceID) \<longrightarrow>
      \<not> IsZero (hd (heartbeats_of deviceID calls @ [sentAt])) \<longrightarrow>
      (\<exists>device device'.
          devices (run s0 calls) deviceID = Some device
        \<and> devices (fst (RecordHeartbeat (run s0 calls) deviceID sentAt)) deviceID = Some device'
        \<and> FirstHeartbeat device' =
            (if heartbeats_of deviceID calls = [] then sentAt else FirstHeartbeat device)
        \<and> FirstHeartbeat device' = hd (heartbeats_of deviceID calls @ [sentAt])))
 \<and> (devices s0 deviceID = Some (newDeviceStats deviceID) \<longrightarrow> \<not> IsZero T1 \<longrightarrow> T2 < T1 \<longrightarrow>
      (\<exists>device.
          devices (run s0 [Heartbeat deviceID T1, Heartbeat deviceID T2]) deviceID = Some device
        \<and> FirstHeartbeat device = T1 \<and> LastHeartbeat device = T2))"
proof -
  have every_call: "\<exists>device'.
          RecordHeartbeat s deviceID sentAt =
            (s\<lparr>devices := (devices s)(deviceID \<mapsto> device')\<rparr>, True)
        \<and> HeartbeatCount device' = HeartbeatCount device + 1
        \<and> LastHeartbeat device' = sentAt
        \<and> FirstHeartbeat device' =
            (if IsZero (FirstHeartbeat device) then sentAt else FirstHeartbeat device)"
    if known: "devices s deviceID = Some device"
  proof -
    let ?device' = "device\<lparr>HeartbeatCount := HeartbeatCount device + 1,
        FirstHeartbeat := (if IsZero (FirstHeartbeat device) then sentAt else FirstHeartbeat device),
        LastHeartbeat := sentAt\<rparr>"
    have "RecordHeartbeat s deviceID sentAt =
        (s\<lparr>devices := (devices s)(deviceID \<mapsto> ?device')\<rparr>, True)"
      by (rule RecordHeartbeat_Some [OF known])
    moreover have "HeartbeatCount ?device' = HeartbeatCount device + 1"
      and "LastHeartbeat ?device' = sentAt"
      and "FirstHeartbeat ?device' =
            (if IsZero (FirstHeartbeat device) then sentAt else FirstHeartbeat device)"
      by simp_all
    ultimately show ?thesis
      by blast
  qed
  have first: "\<exists>device device'.
          devices (run s0 calls) deviceID = Some device
        \<and> devices (fst (RecordHeartbeat (run s0 calls) deviceID sentAt)) deviceID = Some device'
        \<and> FirstHeartbeat device' =
            (if heartbeats_of deviceID calls = [] then sentAt else FirstHeartbeat device)
        \<and> FirstHeartbeat device' = hd (heartbeats_of deviceID calls @ [sentAt])"
    if fresh: "devices s0 deviceID = Some (newDeviceStats deviceID)"
      and nz: "\<not> IsZero (hd (heartbeats_of deviceID calls @ [sentAt]))"
  proof -
    obtain device where d: "devices (run s0 calls) deviceID = Some device"
      "FirstHeartbeat device = first_after 0 (heartbeats_of deviceID calls)"
      using fresh_run [OF fresh, of calls] by blast
    let ?device' = "device\<lparr>HeartbeatCount := HeartbeatCount device + 1,
        FirstHeartbeat := (if IsZero (FirstHeartbeat device) then sentAt else FirstHeartbeat device),
        LastHeartbeat := sentAt\<rparr>"
    have after: "devices (fst (RecordHeartbeat (run s0 calls) deviceID sentAt)) deviceID =
        Some ?device'"
      by (simp add: RecordHeartbeat_Some [OF d(1)])
    have "FirstHeartbeat ?device' = hd (heartbeats_of deviceID calls @ [sentAt])
        \<and> FirstHeartbeat ?device' =
            (if heartbeats_of deviceID calls = [] then sentAt else FirstHeartbeat device)"
    proof (cases "heartbeats_of deviceID calls")
      case Nil
      then show ?thesis
        using d(2) by (simp add: IsZero_def)
    next
      case (Cons t ts)
      then have "FirstHeartbeat device = t" "\<not> IsZero t"
        using d(2) nz by (simp_all add: first_after_nonzero IsZero_def)
      then show ?thesis
        using Cons by simp
    qed
    then show ?thesis
      using d(1) after by blast
  qed
  have particular: "\<exists>device.
      devices (run s0 [Heartbeat deviceID T1, Heartbeat deviceID T2]) deviceID = Some device
      \<and> FirstHeartbeat device = T1 \<and> LastHeartbeat device = T2"
    if fresh: "devices s0 deviceID = Some (newDeviceStats deviceID)" and "\<not> IsZero T1"
  proof -
    obtain device where
      "devices (run s0 [Heartbeat deviceID T1, Heartbeat deviceID T2]) deviceID = Some device"
      "FirstHeartbeat device =
         first_after 0 (heartbeats_of deviceID [Heartbeat deviceID T1, Heartbeat deviceID T2])"
      "LastHeartbeat device =
         last (0 # heartbeats_of deviceID [Heartbeat deviceID T1, Heartbeat deviceID T2])"
      using fresh_run [OF fresh, of "[Heartbeat deviceID T1, Heartbeat deviceID T2]"] by blast
    moreover have
      "first_after 0 (heartbeats_of deviceID [Heartbeat deviceID T1, Heartbeat deviceID T2]) = T1"
      using that(2) by (simp add: IsZero_def)
    moreover have
      "last (0 # heartbeats_of deviceID [Heartbeat deviceID T1, Heartbeat deviceID T2]) = T2"
      by simp
    ultimately show ?thesis by (simp del: run.simps)
  qed
  show ?thesis
    using every_call first particular by blast
qed

theorem RecordHeartbeat_known_witness:
  "devices (run test_store [Heartbeat ''device-1'' 0]) ''device-1'' =
     Some \<lparr>ID = ''device-1'', HeartbeatCount = 1, FirstHeartbeat = 0, LastHeartbeat = 0,
           UploadCount = 0, UploadTimeSum = 0\<rparr>
   \<and> snd (RecordHeartbeat (run test_store [Heartbeat ''device-1'' 0]) ''device-1'' baseTime) = True
   \<and> map_option HeartbeatCount (devices (fst (RecordHeartbeat
          (run test_store [Heartbeat ''device-1'' 0]) ''device-1'' baseTime)) ''device-1'') = Some 2
   \<and> map_option LastHeartbeat (devices (fst (RecordHeartbeat
          (run test_store [Heartbeat ''device-1'' 0]) ''device-1'' baseTime)) ''device-1'') =
       Some baseTime
   \<and> devices test_store ''device-1'' = Some (newDeviceStats ''device-1'')
   \<and> \<not> IsZero (hd (heartbeats_of ''device-1''
          [Heartbeat ''device-1'' (baseTime + 300000000000)] @ [baseTime]))
   \<and> map_option FirstHeartbeat (devices (fst (RecordHeartbeat
          (run test_store [Heartbeat ''device-1'' (baseTime + 300000000000)])
          ''device-1'' baseTime)) ''device-1'') = Some (baseTime + 300000000000)
   \<and> \<not> IsZero (baseTime + 300000000000) \<and> baseTime < baseTime + 300000000000
   \<and> map_option FirstHeartbeat (devices (run test_store
          [Heartbeat ''device-1'' (baseTime + 300000000000), Heartbeat ''device-1'' baseTime])
          ''device-1'') = Some (baseTime + 300000000000)
   \<and> map_option LastHeartbeat (devices (run test_store
          [Heartbeat ''device-1'' (baseTime + 300000000000), Heartbeat ''device-1'' baseTime])
          ''device-1'') = Some baseTime"
proof -
  let ?s = "run test_store [Heartbeat ''device-1'' 0]"
  let ?d = "\<lparr>ID = ''device-1'', HeartbeatCount = 1 :: int64, FirstHeartbeat = 0,
           LastHeartbeat = 0, UploadCount = 0 :: int64, UploadTimeSum = 0 :: int64\<rparr>"
  let ?calls = "[Heartbeat ''device-1'' (baseTime + 300000000000)]"
  have h0: "devices ?s ''device-1'' = Some ?d"
    by (simp add: test_store_devices RecordHeartbeat_def newDeviceStats_def IsZero_def)
  have h1: "devices test_store ''device-1'' = Some (newDeviceStats ''device-1'')"
    by (simp add: test_store_devices)
  have h2: "\<not> IsZero (hd (heartbeats_of ''device-1'' ?calls @ [baseTime]))"
    by (simp add: IsZero_def baseTime_def)
  have h3: "\<not> IsZero (baseTime + 300000000000)" and h4: "baseTime < baseTime + 300000000000"
    by (simp_all add: IsZero_def baseTime_def)
  note inst = RecordHeartbeat_known [of ?s "''device-1''" ?d baseTime test_store ?calls
      "baseTime + 300000000000" baseTime]
  from inst [THEN conjunct1, THEN mp, OF h0] obtain device' where a:
    "RecordHeartbeat ?s ''device-1'' baseTime =
       (?s\<lparr>devices := (devices ?s)(''device-1'' \<mapsto> device')\<rparr>, True)"
    "HeartbeatCount device' = HeartbeatCount ?d + 1"
    "LastHeartbeat device' = baseTime"
    by blast
  from inst [THEN conjunct2, THEN conjunct1, THEN mp, OF h1, THEN mp, OF h2]
  obtain device'' where b:
    "devices (fst (RecordHeartbeat (run test_store ?calls) ''device-1'' baseTime)) ''device-1'' =
       Some device''"
    "FirstHeartbeat device'' = hd (heartbeats_of ''device-1'' ?calls @ [baseTime])"
    by blast
  from inst [THEN conjunct2, THEN conjunct2, THEN mp, OF h1, THEN mp, OF h3, THEN mp, OF h4]
  obtain device where c:
    "devices (run test_store
        [Heartbeat ''device-1'' (baseTime + 300000000000), Heartbeat ''device-1'' baseTime])
        ''device-1'' = Some device"
    "FirstHeartbeat device = baseTime + 300000000000"
    "LastHeartbeat device = baseTime"
    by blast
  have a': "snd (RecordHeartbeat ?s ''device-1'' baseTime) = True"
    "map_option HeartbeatCount (devices (fst (RecordHeartbeat ?s ''device-1'' baseTime))
        ''device-1'') = Some 2"
    "map_option LastHeartbeat (devices (fst (RecordHeartbeat ?s ''device-1'' baseTime))
        ''device-1'') = Some baseTime"
    unfolding a(1) using a(2,3) by simp_all
  have b': "map_option FirstHeartbeat (devices (fst (RecordHeartbeat (run test_store ?calls)
        ''device-1'' baseTime)) ''device-1'') = Some (baseTime + 300000000000)"
    unfolding b(1) using b(2) by simp
  have c': "map_option FirstHeartbeat (devices (run test_store
        [Heartbeat ''device-1'' (baseTime + 300000000000), Heartbeat ''device-1'' baseTime])
        ''device-1'') = Some (baseTime + 300000000000)"
    "map_option LastHeartbeat (devices (run test_store
        [Heartbeat ''device-1'' (baseTime + 300000000000), Heartbeat ''device-1'' baseTime])
        ''device-1'') = Some baseTime"
    unfolding c(1) using c(2,3) by simp_all
  show ?thesis
    using h0 a' h1 h2 b' h3 h4 c' by (intro conjI)
qed

text \<open>
  The claim fails when the first heartbeat carries the zero Time: \<^verbatim>\<open>FirstHeartbeat\<close>
  still holds the zero Time after it, and the second heartbeat overwrites the field.
\<close>

theorem first_heartbeat_zero_counterexample:
  "\<not> (FirstHeartbeat (the (devices (fst (RecordHeartbeat
          (run test_store [Heartbeat ''device-1'' 0]) ''device-1'' baseTime)) ''device-1''))
       = FirstHeartbeat (the (devices (run test_store [Heartbeat ''device-1'' 0]) ''device-1'')))"
  by (simp add: test_store_devices RecordHeartbeat_def Let_def IsZero_def newDeviceStats_def
      baseTime_def)

section \<open>Unknown devices\<close>

text \<open>
  Claim C5. For a device identifier that is not a key of the store, \<^verbatim>\<open>DeviceExists\<close>,
  \<^verbatim>\<open>RecordHeartbeat\<close> and \<^verbatim>\<open>RecordUploadStat\<close> return false and \<^verbatim>\<open>GetStats\<close> reports
  not found; the two mutating methods return the store they were given, and
  \<^verbatim>\<open>DeviceExists\<close> and \<^verbatim>\<open>GetStats\<close> only read it.
\<close>

theorem unknown_device_not_found:
  assumes "devices s deviceID = None"
  shows "DeviceExists s deviceID = False
       \<and> RecordHeartbeat s deviceID sentAt = (s, False)
       \<and> RecordUploadStat s deviceID uploadTime = (s, False)
       \<and> snd (GetStats s deviceID) = False"
  using assms
  by (simp add: DeviceExists_def RecordHeartbeat_def RecordUploadStat_def GetStats_def)

theorem unknown_device_not_found_witness:
  "devices test_store ''unknown'' = None
   \<and> DeviceExists test_store ''unknown'' = False
   \<and> RecordHeartbeat test_store ''unknown'' baseTime = (test_store, False)
   \<and> RecordUploadStat test_store ''unknown'' (5 * Second) = (test_store, False)
   \<and> snd (GetStats test_store ''unknown'') = False"
proof -
  have h: "devices test_store ''unknown'' = None"
    by (simp add: test_store_devices)
  show ?thesis
    using h unknown_device_not_found [OF h, of baseTime "5 * Second"] by simp
qed

section \<open>Statistics\<close>

text \<open>
  Claim C6. For a known device whose record has no heartbeat and no upload,
  \<^verbatim>\<open>GetStats\<close> reports the device as found, with \<^verbatim>\<open>HasHeartbeats\<close> and
  \<^verbatim>\<open>HasUploads\<close> both false.
\<close>

theorem no_data_stats:
  assumes "devices s deviceID = Some device"
    and "HeartbeatCount device = 0" and "UploadCount device = 0"
  shows "snd (GetStats s deviceID) = True
       \<and> HasHeartbeats (fst (GetStats s deviceID)) = False
       \<and> HasUploads (fst (GetStats s deviceID)) = False"
  using assms by (simp add: GetStats_def zeroStatsResult_def)

theorem no_data_stats_witness:
  "devices test_store ''device-1'' = Some (newDeviceStats ''device-1'')
   \<and> HeartbeatCount (newDeviceStats ''device-1'') = 0
   \<and> UploadCount (newDeviceStats ''device-1'') = 0
   \<and> snd (GetStats test_store ''device-1'') = True
   \<and> HasHeartbeats (fst (GetStats test_store ''device-1'')) = False
   \<and> HasUploads (fst (GetStats test_store ''device-1'')) = False"
proof -
  have h1: "devices test_store ''device-1'' = Some (newDeviceStats ''device-1'')"
    by (simp add: test_store_devices)
  have h2: "HeartbeatCount (newDeviceStats ''device-1'') = 0"
    and h3: "UploadCount (newDeviceStats ''device-1'') = 0"
    by (simp_all add: newDeviceStats_def)
  show ?thesis
    using h1 h2 h3 no_data_stats [OF h1 h2 h3] by simp
qed

text \<open>
  Claim C3. For a known device whose record holds exactly one heartbeat, \<^verbatim>\<open>GetStats\<close>
  returns an uptime of exactly 100, whatever the timestamps of the record are; so
  recording one heartbeat at any time \<open>T\<close> for a device without heartbeats gives an
  uptime of 100.
\<close>

theorem single_heartbeat_uptime:
  assumes "devices s deviceID = Some device"
  shows "(HeartbeatCount device = 1 \<longrightarrow>
            snd (GetStats s deviceID) = True
          \<and> HasHeartbeats (fst (GetStats s deviceID)) = True
          \<and> Uptime (fst (GetStats s deviceID)) = Finite 100)
       \<and> (HeartbeatCount device = 0 \<longrightarrow>
            Uptime (fst (GetStats (fst (RecordHeartbeat s deviceID T)) deviceID)) = Finite 100)"
proof -
  have one: "Uptime (fst (GetStats s' deviceID)) = Finite 100
      \<and> snd (GetStats s' deviceID) = True \<and> HasHeartbeats (fst (GetStats s' deviceID)) = True"
    if "devices s' deviceID = Some device'" and "HeartbeatCount device' = 1" for s' device'
    using that by (simp add: GetStats_def zeroStatsResult_def Let_def word_sless_alt)
  have "Uptime (fst (GetStats (fst (RecordHeartbeat s deviceID T)) deviceID)) = Finite 100"
    if "HeartbeatCount device = 0"
  proof -
    let ?device' = "device\<lparr>HeartbeatCount := HeartbeatCount device + 1,
        FirstHeartbeat := (if IsZero (FirstHeartbeat device) then T else FirstHeartbeat device),
        LastHeartbeat := T\<rparr>"
    have "devices (fst (RecordHeartbeat s deviceID T)) deviceID = Some ?device'"
      by (simp add: RecordHeartbeat_Some [OF assms])
    moreover have "HeartbeatCount ?device' = 1"
      using that by simp
    ultimately show ?thesis
      using one by blast
  qed
  then show ?thesis
    using one [OF assms] by blast
qed

theorem single_heartbeat_uptime_witness:
  "devices test_store ''device-1'' = Some (newDeviceStats ''device-1'')
   \<and> HeartbeatCount (newDeviceStats ''device-1'') = 0
   \<and> Uptime (fst (GetStats (fst (RecordHeartbeat test_store ''device-1'' baseTime))
         ''device-1'')) = Finite 100
   \<and> devices (run test_store [Heartbeat ''device-2'' 0]) ''device-2'' =
       Some \<lparr>ID = ''device-2'', HeartbeatCount = 1, FirstHeartbeat = 0, LastHeartbeat = 0,
             UploadCount = 0, UploadTimeSum = 0\<rparr>
   \<and> Uptime (fst (GetStats (run test_store [Heartbeat ''device-2'' 0]) ''device-2'')) =
       Finite 100"
proof -
  let ?s = "run test_store [Heartbeat ''device-2'' 0]"
  let ?d = "\<lparr>ID = ''device-2'', HeartbeatCount = 1 :: int64, FirstHeartbeat = 0,
             LastHeartbeat = 0, UploadCount = 0 :: int64, UploadTimeSum = 0 :: int64\<rparr>"
  have h1: "devices test_store ''device-1'' = Some (newDeviceStats ''device-1'')"
    by (simp add: test_store_devices)
  have h2: "HeartbeatCount (newDeviceStats ''device-1'') = 0"
    by (simp add: newDeviceStats_def)
  have h3: "devices ?s ''device-2'' = Some ?d"
    by (simp add: test_store_devices RecordHeartbeat_def newDeviceStats_def IsZero_def)
  have h4: "HeartbeatCount ?d = 1"
    by simp
  have "Uptime (fst (GetStats (fst (RecordHeartbeat test_store ''device-1'' baseTime))
         ''device-1'')) = Finite 100"
    using single_heartbeat_uptime [OF h1, of baseTime] h2 by blast
  moreover have "Uptime (fst (GetStats ?s ''device-2'')) = Finite 100"
    using single_heartbeat_uptime [OF h3, of baseTime] h4 by blast
  ultimately show ?thesis
    using h1 h2 h3 by blast
qed

section \<open>What a call leaves unchanged\<close>

text \<open>
  Claim C10. For a known device, \<^verbatim>\<open>RecordHeartbeat\<close> leaves the identifier and the
  upload fields of the device's record as they were, and \<^verbatim>\<open>RecordUploadStat\<close> leaves
  the identifier and the heartbeat fields as they were; both leave the set of keys of the
  store and the record of every other device unchanged.
\<close>

theorem record_calls_frame:
  assumes "devices s deviceID = Some device"
  shows "(\<exists>device'.
            devices (fst (RecordHeartbeat s deviceID sentAt)) deviceID = Some device'
          \<and> ID device' = ID device
          \<and> UploadCount device' = UploadCount device
          \<and> UploadTimeSum device' = UploadTimeSum device)
       \<and> (\<exists>device'.
            devices (fst (RecordUploadStat s deviceID uploadTime)) deviceID = Some device'
          \<and> ID device' = ID device
          \<and> HeartbeatCount device' = HeartbeatCount device
          \<and> FirstHeartbeat device' = FirstHeartbeat device
          \<and> LastHeartbeat device' = LastHeartbeat device)
       \<and> dom (devices (fst (RecordHeartbeat s deviceID sentAt))) = dom (devices s)
       \<and> dom (devices (fst (RecordUploadStat s deviceID uploadTime))) = dom (devices s)
       \<and> (\<forall>other. other \<noteq> deviceID \<longrightarrow>
            devices (fst (RecordHeartbeat s deviceID sentAt)) other = devices s other
          \<and> devices (fst (RecordUploadStat s deviceID uploadTime)) other = devices s other)"
proof -
  have "deviceID \<in> dom (devices s)"
    using assms by blast
  then have "insert deviceID (dom (devices s)) = dom (devices s)"
    by blast
  then show ?thesis
    by (simp add: RecordHeartbeat_Some [OF assms] RecordUploadStat_Some [OF assms])
qed

theorem record_calls_frame_witness:
  "devices test_store ''device-1'' = Some (newDeviceStats ''device-1'')
   \<and> dom (devices (fst (RecordHeartbeat test_store ''device-1'' baseTime))) = dom (devices test_store)
   \<and> dom (devices (fst (RecordUploadStat test_store ''device-1'' (5 * Second)))) =
       dom (devices test_store)
   \<and> devices (fst (RecordHeartbeat test_store ''device-1'' baseTime)) ''device-2'' =
       devices test_store ''device-2''
   \<and> devices (fst (RecordUploadStat test_store ''device-1'' (5 * Second))) ''device-2'' =
       devices test_store ''device-2''"
proof -
  have h: "devices test_store ''device-1'' = Some (newDeviceStats ''device-1'')"
    by (simp add: test_store_devices)
  note frame = record_calls_frame [OF h, of baseTime "5 * Second"]
  note doms = frame [THEN conjunct2, THEN conjunct2]
  have others: "''device-2'' \<noteq> ''device-1'' \<longrightarrow>
      devices (fst (RecordHeartbeat test_store ''device-1'' baseTime)) ''device-2'' =
        devices test_store ''device-2''
      \<and> devices (fst (RecordUploadStat test_store ''device-1'' (5 * Second))) ''device-2'' =
        devices test_store ''device-2''"
    using doms [THEN conjunct2, THEN conjunct2] by (rule spec)
  show ?thesis
    using h doms [THEN conjunct1] doms [THEN conjunct2, THEN conjunct1] others
    by (simp del: One_nat_def)
qed

section \<open>Derived statistics\<close>

subsection \<open>Average upload duration\<close>

text \<open>
  For a positive divisor the int64 quotient is the truncated quotient of the signed values;
  it cannot overflow.
\<close>

lemma sint_int64_quo:
  assumes "0 < sint b"
  shows "sint (int64_quo a b) = sint a sdiv sint (b :: int64)"
proof -
  have r: "- (2 ^ 63) \<le> sint a" "sint a < 2 ^ 63"
    using sint_ge [of a] sint_lt [of a] by simp_all
  define q where "q = \<bar>sint a\<bar> div sint b"
  have "\<bar>sint a\<bar> div sint b \<le> \<bar>sint a\<bar> div 1"
    using assms by (intro zdiv_mono2) simp_all
  then have q: "0 \<le> q" "q \<le> \<bar>sint a\<bar>"
    using assms by (simp_all add: q_def pos_imp_zdiv_nonneg_iff)
  have "sint a sdiv sint b = sgn (sint a) * q"
    using assms by (simp add: signed_divide_int_def q_def)
  then have "- (2 ^ 63) \<le> sint a sdiv sint b \<and> sint a sdiv sint b < 2 ^ 63"
    using r q by (cases "sint a" "0 :: int" rule: linorder_cases) simp_all
  then show ?thesis
    by (simp add: int64_quo_def sint_sbintrunc' signed_take_bit_int_eq_self)
qed

lemma GetStats_uploads:
  assumes "devices s deviceID = Some device" and "0 <s UploadCount device"
  shows "snd (GetStats s deviceID) = True"
    and "HasUploads (fst (GetStats s deviceID)) = True"
    and "AvgUploadTime (fst (GetStats s deviceID)) = int64_quo (UploadTimeSum device) (UploadCount device)"
  using assms by (simp_all add: GetStats_def Let_def)


lemma sum_three_uploads:
  "int64_quo (5 * Second + 10 * Second + 15 * Second) 3 = 10 * Second"
  by (simp add: int64_quo_def Second_def signed_divide_int_def)

text \<open>
  Claim C4. For a known device with \<^verbatim>\<open>UploadCount > 0\<close>, \<^verbatim>\<open>GetStats\<close> sets
  \<^verbatim>\<open>HasUploads\<close> and returns as average the quotient of \<^verbatim>\<open>UploadTimeSum\<close> by
  \<^verbatim>\<open>UploadCount\<close>, truncated towards zero: the sign of the sum times the floor of the
  quotient of the magnitudes. Recording the uploads 5s, 10s and 15s for a device without
  uploads gives an average of exactly 10s.
\<close>

theorem avg_upload_duration:
  "(devices s deviceID = Some device \<longrightarrow> 0 <s UploadCount device \<longrightarrow>
      snd (GetStats s deviceID) = True
    \<and> HasUploads (fst (GetStats s deviceID)) = True
    \<and> sint (AvgUploadTime (fst (GetStats s deviceID))) =
        sgn (sint (UploadTimeSum device))
          * (\<bar>sint (UploadTimeSum device)\<bar> div sint (UploadCount device)))
 \<and> (devices s0 deviceID = Some (newDeviceStats deviceID) \<longrightarrow>
      AvgUploadTime (fst (GetStats
        (run s0 [Upload deviceID (5 * Second), Upload deviceID (10 * Second),
                 Upload deviceID (15 * Second)]) deviceID)) = 10 * Second)"
proof -
  have general: "snd (GetStats s deviceID) = True
    \<and> HasUploads (fst (GetStats s deviceID)) = True
    \<and> sint (AvgUploadTime (fst (GetStats s deviceID))) =
        sgn (sint (UploadTimeSum device))
          * (\<bar>sint (UploadTimeSum device)\<bar> div sint (UploadCount device))"
    if known: "devices s deviceID = Some device" and pos: "0 <s UploadCount device"
  proof -
    have "0 < sint (UploadCount device)"
      using pos by (simp add: word_sless_alt)
    then have "sint (int64_quo (UploadTimeSum device) (UploadCount device)) =
        sgn (sint (UploadTimeSum device))
          * (\<bar>sint (UploadTimeSum device)\<bar> div sint (UploadCount device))"
      by (simp add: sint_int64_quo signed_divide_int_def)
    then show ?thesis
      using GetStats_uploads [OF known pos] by simp
  qed
  have example: "AvgUploadTime (fst (GetStats
        (run s0 [Upload deviceID (5 * Second), Upload deviceID (10 * Second),
                 Upload deviceID (15 * Second)]) deviceID)) = 10 * Second"
    if fresh: "devices s0 deviceID = Some (newDeviceStats deviceID)"
  proof -
    let ?calls = "[Upload deviceID (5 * Second), Upload deviceID (10 * Second),
                 Upload deviceID (15 * Second)]"
    obtain d where d: "devices (run s0 ?calls) deviceID = Some d"
      "UploadCount d = of_nat (length (uploads_of deviceID ?calls))"
      "UploadTimeSum d = sum_list (uploads_of deviceID ?calls)"
      using fresh_run [OF fresh, of ?calls] by blast
    have count: "UploadCount d = 3"
      using d(2) by simp
    have total: "UploadTimeSum d = 5 * Second + 10 * Second + 15 * Second"
      using d(3) by simp
    have "0 <s UploadCount d"
      unfolding count by (simp add: word_sless_alt)
    then have "AvgUploadTime (fst (GetStats (run s0 ?calls) deviceID)) =
        int64_quo (UploadTimeSum d) (UploadCount d)"
      using GetStats_uploads(3) [OF d(1)] by blast
    then show ?thesis
      unfolding count total sum_three_uploads .
  qed
  show ?thesis
    using general example by blast
qed

theorem avg_upload_duration_witness:
  "devices (run test_store [Upload ''device-1'' (- 7), Upload ''device-1'' 0]) ''device-1'' =
     Some \<lparr>ID = ''device-1'', HeartbeatCount = 0, FirstHeartbeat = 0, LastHeartbeat = 0,
           UploadCount = 2, UploadTimeSum = - 7\<rparr>
   \<and> 0 <s (2 :: int64)
   \<and> sint (AvgUploadTime (fst (GetStats
        (run test_store [Upload ''device-1'' (- 7), Upload ''device-1'' 0]) ''device-1''))) = - 3
   \<and> devices test_store ''device-1'' = Some (newDeviceStats ''device-1'')
   \<and> AvgUploadTime (fst (GetStats
        (run test_store [Upload ''device-1'' (5 * Second), Upload ''device-1'' (10 * Second),
                 Upload ''device-1'' (15 * Second)]) ''device-1'')) = 10 * Second"
proof -
  let ?s = "run test_store [Upload ''device-1'' (- 7), Upload ''device-1'' 0]"
  let ?d = "\<lparr>ID = ''device-1'', HeartbeatCount = 0, FirstHeartbeat = 0, LastHeartbeat = 0,
           UploadCount = 2 :: int64, UploadTimeSum = - 7 :: int64\<rparr>"
  have h1: "devices ?s ''device-1'' = Some ?d"
    by (simp add: test_store_devices RecordUploadStat_def newDeviceStats_def)
  have h2: "0 <s UploadCount ?d"
    by (simp add: word_sless_alt)
  have h3: "devices test_store ''device-1'' = Some (newDeviceStats ''device-1'')"
    by (simp add: test_store_devices)
  have "sint (AvgUploadTime (fst (GetStats ?s ''device-1''))) =
      sgn (sint (UploadTimeSum ?d)) * (\<bar>sint (UploadTimeSum ?d)\<bar> div sint (UploadCount ?d))"
    using avg_upload_duration [THEN conjunct1, THEN mp, OF h1, THEN mp, OF h2] by blast
  then have "sint (AvgUploadTime (fst (GetStats ?s ''device-1''))) = - 3"
    by simp
  moreover have "0 <s (2 :: int64)"
    by (simp add: word_sless_alt)
  ultimately show ?thesis
    using h1 h3 avg_upload_duration [THEN conjunct2, THEN mp, OF h3] by blast
qed

subsection \<open>Upload count and upload sum\<close>

lemma sum_list_int64:
  "sum_list us = (word_of_int (sum_list (map sint us)) :: int64)"
  by (induction us) simp_all

lemma positive_uploads_sum:
  assumes "\<forall>u \<in> set us. 0 <s (u :: int64)"
  shows "int (length us) \<le> sum_list (map sint us)"
  using assms
proof (induction us)
  case Nil
  then show ?case by simp
next
  case (Cons u us)
  then have "0 < sint u" and "int (length us) \<le> sum_list (map sint us)"
    by (simp_all add: word_sless_alt)
  then show ?case by simp
qed

text \<open>
  Claim C8, as the code has it. For a device whose record was created by the roster
  loader and any history of calls in which every upload duration of the device is
  strictly positive and the durations add up to less than \<open>2\<^sup>6\<^sup>3\<close> nanoseconds,
  \<^verbatim>\<open>UploadCount\<close> is zero exactly when \<^verbatim>\<open>UploadTimeSum\<close> is zero.
\<close>

theorem upload_count_zero_iff_sum_zero:
  assumes fresh: "devices s0 deviceID = Some (newDeviceStats deviceID)"
    and pos: "\<forall>u \<in> set (uploads_of deviceID calls). 0 <s u"
    and bound: "sum_list (map sint (uploads_of deviceID calls)) < 2 ^ 63"
  shows "\<exists>device. devices (run s0 calls) deviceID = Some device
           \<and> (UploadCount device = 0 \<longleftrightarrow> UploadTimeSum device = 0)"
proof -
  define us where "us = uploads_of deviceID calls"
  define total where "total = sum_list (map sint us)"
  obtain device where d: "devices (run s0 calls) deviceID = Some device"
    "UploadCount device = of_nat (length us)"
    "UploadTimeSum device = sum_list us"
    unfolding us_def using fresh_run [OF fresh, of calls] by blast
  have len: "int (length us) \<le> total"
    unfolding total_def using pos by (intro positive_uploads_sum) (simp add: us_def)
  have small: "total < 2 ^ 63"
    using bound by (simp add: total_def us_def)
  have "UploadCount device = 0 \<longleftrightarrow> length us = 0"
  proof -
    have "int (length us) < int (2 ^ 64)"
      using len small by simp
    then have "length us < 2 ^ 64"
      by (simp only: of_nat_less_iff)
    then have "\<not> 2 ^ 64 dvd length us" if "length us \<noteq> 0"
      using that by (meson dvd_imp_le not_less zero_less_iff_neq_zero)
    then show ?thesis
      unfolding d(2) by (auto simp: word_of_nat_eq_0_iff)
  qed
  moreover have "UploadTimeSum device = 0 \<longleftrightarrow> total = 0"
  proof -
    have "0 \<le> total" "total < 2 ^ 64"
      using len small by simp_all
    then have "\<not> 2 ^ 64 dvd total" if "total \<noteq> 0"
      using that by (meson zdvd_imp_le not_less order_le_less)
    then show ?thesis
      unfolding d(3) sum_list_int64 [of us] total_def [symmetric]
      by (auto simp: word_of_int_eq_0_iff)
  qed
  moreover have "total = 0 \<longleftrightarrow> length us = 0"
  proof
    assume "total = 0"
    then show "length us = 0" using len by simp
  next
    assume "length us = 0"
    then show "total = 0" by (simp add: total_def)
  qed
  ultimately show ?thesis
    using d(1) by blast
qed

theorem upload_count_zero_iff_sum_zero_witness:
  "devices test_store ''device-1'' = Some (newDeviceStats ''device-1'')
   \<and> (\<exists>device. devices (run test_store
          [Upload ''device-1'' (5 * Second), Heartbeat ''device-1'' baseTime,
           Upload ''device-1'' (15 * Second)]) ''device-1'' = Some device
        \<and> (UploadCount device = 0 \<longleftrightarrow> UploadTimeSum device = 0))"
proof -
  let ?calls = "[Upload ''device-1'' (5 * Second), Heartbeat ''device-1'' baseTime,
           Upload ''device-1'' (15 * Second)]"
  have h1: "devices test_store ''device-1'' = Some (newDeviceStats ''device-1'')"
    by (simp add: test_store_devices)
  have h2: "\<forall>u \<in> set (uploads_of ''device-1'' ?calls). 0 <s u"
    by (simp add: Second_def word_sless_alt)
  have h3: "sum_list (map sint (uploads_of ''device-1'' ?calls)) < 2 ^ 63"
    by (simp add: Second_def)
  show ?thesis
    using h1 upload_count_zero_iff_sum_zero [OF h1 h2 h3] by (rule conjI)
qed

text \<open>
  The claim fails for arbitrary durations: after one upload of duration zero the count is
  1 and the sum is 0.
\<close>

theorem upload_zero_duration_counterexample:
  "\<not> (UploadCount (the (devices (run test_store [Upload ''device-1'' 0]) ''device-1'')) = 0
        \<longleftrightarrow> UploadTimeSum (the (devices (run test_store [Upload ''device-1'' 0]) ''device-1'')) = 0)"
  by (simp add: test_store_devices RecordUploadStat_def newDeviceStats_def)

subsection \<open>Rounding to float64\<close>






lemma pow2_nat: "pow2 (int n) = 2 ^ n"
  by (simp add: pow2_def)













subsection \<open>Uptime\<close>

















text \<open>
  The uptime that \<^verbatim>\<open>GetStats\<close> returns is never greater than 100 in the sense of Go's
  comparison: this is the test the code makes before it returns.
\<close>

lemma GetStats_Uptime_not_above_100:
  "\<not> f64_gt (Uptime (fst (GetStats s deviceID))) (Finite 100)"
proof (cases "devices s deviceID")
  case None
  then show ?thesis
    by (simp add: GetStats_def zeroStatsResult_def)
next
  case (Some device)
  then show ?thesis
    by (simp add: GetStats_def zeroStatsResult_def Let_def)
qed

text \<open>
  Claim C7 fails on the code. A heartbeat at 10:05 followed by a heartbeat at 10:00 is
  accepted (no order of timestamps is checked); the span is then \<open>-5\<close> minutes, the
  denominator \<open>-4\<close>, and \<^verbatim>\<open>GetStats\<close> returns an uptime of \<open>-50\<close>, which only the upper
  bound 100 is tested against.
\<close>

theorem out_of_order_uptime_negative:
  "GetStats (run test_store
      [Heartbeat ''device-1'' (baseTime + 300000000000), Heartbeat ''device-1'' baseTime])
      ''device-1''
   = (\<lparr>HasHeartbeats = True, HasUploads = False, Uptime = Finite (- 50), AvgUploadTime = 0\<rparr>,
      True)"
  by code_simp

end
